theory Spec2Isabelle
  imports Main
begin

section \<open>Strings as Go sees them\<close>

text \<open>
  A Go string is a sequence of bytes, modelled as a \<open>char list\<close> (a \<open>char\<close> is a byte); text
  is UTF-8. \<open>strings.HasPrefix\<close>, \<open>strings.Contains\<close>, \<open>strings.Split\<close> and \<open>strings.Join\<close>
  work on the bytes.
\<close>

fun HasPrefix :: "string \<Rightarrow> string \<Rightarrow> bool" where
  "HasPrefix s [] = True"
| "HasPrefix [] (p # ps) = False"
| "HasPrefix (c # cs) (p # ps) = (c = p \<and> HasPrefix cs ps)"

fun Contains :: "string \<Rightarrow> string \<Rightarrow> bool" where
  "Contains [] sub = (sub = [])"
| "Contains (c # cs) sub = (HasPrefix (c # cs) sub \<or> Contains cs sub)"

text \<open>\<open>strings.Split\<close> and \<open>strings.Join\<close> for a one-byte separator. Splitting the empty
  string gives one empty segment, as in Go.\<close>

fun Split :: "string \<Rightarrow> char \<Rightarrow> string list" where
  "Split [] d = [[]]"
| "Split (c # cs) d =
     (if c = d then [] # Split cs d
      else (case Split cs d of [] \<Rightarrow> [[c]] | x # xs \<Rightarrow> (c # x) # xs))"

fun Join :: "string list \<Rightarrow> char \<Rightarrow> string" where
  "Join [] d = []"
| "Join [x] d = x"
| "Join (x # y # ys) d = x @ d # Join (y # ys) d"

text \<open>
  \<open>strings.TrimSpace\<close> removes the leading and the trailing white space, as
  \<open>unicode.IsSpace\<close> defines it: the runes U+0009 to U+000D, U+0020, U+0085, U+00A0, U+1680,
  U+2000 to U+200A, U+2028, U+2029, U+202F, U+205F and U+3000. \<open>space_runes\<close> lists their
  UTF-8 encodings. A string begins with a white-space rune exactly when one of these
  encodings is a prefix of it, and ends with one exactly when one of them is a suffix of
  it (a byte that belongs to no valid encoding decodes to U+FFFD, which is not white
  space). \<open>trim_left\<close> removes leading runes of a list for as long as there is one
  (\<open>strings.TrimLeftFunc\<close>); on the reversed string with the reversed encodings it is
  \<open>strings.TrimRightFunc\<close>.
\<close>

definition space_runes :: "string list" where
  "space_runes =
     [[CHR 0x09], [CHR 0x0A], [CHR 0x0B], [CHR 0x0C], [CHR 0x0D], [CHR 0x20],
      [CHR 0xC2, CHR 0x85], [CHR 0xC2, CHR 0xA0],
      [CHR 0xE1, CHR 0x9A, CHR 0x80],
      [CHR 0xE2, CHR 0x80, CHR 0x80], [CHR 0xE2, CHR 0x80, CHR 0x81],
      [CHR 0xE2, CHR 0x80, CHR 0x82], [CHR 0xE2, CHR 0x80, CHR 0x83],
      [CHR 0xE2, CHR 0x80, CHR 0x84], [CHR 0xE2, CHR 0x80, CHR 0x85],
      [CHR 0xE2, CHR 0x80, CHR 0x86], [CHR 0xE2, CHR 0x80, CHR 0x87],
      [CHR 0xE2, CHR 0x80, CHR 0x88], [CHR 0xE2, CHR 0x80, CHR 0x89],
      [CHR 0xE2, CHR 0x80, CHR 0x8A],
      [CHR 0xE2, CHR 0x80, CHR 0xA8], [CHR 0xE2, CHR 0x80, CHR 0xA9],
      [CHR 0xE2, CHR 0x80, CHR 0xAF], [CHR 0xE2, CHR 0x81, CHR 0x9F],
      [CHR 0xE3, CHR 0x80, CHR 0x80]]"

function trim_left :: "string list \<Rightarrow> string \<Rightarrow> string" where
  "trim_left runes s =
     (case find (\<lambda>r. r \<noteq> [] \<and> HasPrefix s r) runes of
        None \<Rightarrow> s
      | Some r \<Rightarrow> trim_left runes (drop (length r) s))"
  by pat_completeness auto
termination
proof (relation "measure (\<lambda>(runes, s). length s)")
  show "wf (measure (\<lambda>(runes, s). length s))" by simp
next
  fix runes :: "string list" and s r :: string
  assume "find (\<lambda>r. r \<noteq> [] \<and> HasPrefix s r) runes = Some r"
  then have "r \<noteq> [] \<and> HasPrefix s r"
    by (auto simp: find_Some_iff)
  then have "r \<noteq> [] \<and> s \<noteq> []"
    by (cases s; cases r) auto
  then show "((runes, drop (length r) s), (runes, s)) \<in> measure (\<lambda>(runes, s). length s)"
    by simp
qed

declare trim_left.simps [simp del]

definition TrimSpace :: "string \<Rightarrow> string" where
  "TrimSpace s = rev (trim_left (map rev space_runes) (rev (trim_left space_runes s)))"

text \<open>A string is blank when it consists of white-space runes only (the empty string is
  blank).\<close>

definition blank :: "string \<Rightarrow> bool" where
  "blank s = (trim_left space_runes s = [])"

text \<open>
  Letter case. On a string of ASCII bytes (below \<open>0x80\<close>, \<open>utf8.RuneSelf\<close>) \<open>strings.ToLower\<close>
  and \<open>strings.ToUpper\<close> map \<open>A..Z\<close> and \<open>a..z\<close> onto each other byte by byte; on any other
  string they are \<open>strings.Map(unicode.ToLower, s)\<close> and \<open>strings.Map(unicode.ToUpper, s)\<close>.
  \<open>strings.EqualFold\<close> compares byte by byte while both bytes are ASCII, and from the first
  position where one of them is not it compares the rest rune by rune under Unicode
  simple case folding. The Unicode case tables are not written out: the rune-wise
  functions are fields of the record \<open>stdlib\<close>, together with the functions of
  \<open>path/filepath\<close> that the program calls, and every function below that reaches one of
  them takes the record as its first argument. A theorem about all values of the record
  holds for Go's library in particular.
\<close>

record stdlib =
  Map_ToLower :: "string \<Rightarrow> string"
  Map_ToUpper :: "string \<Rightarrow> string"
  fold_runes :: "string \<Rightarrow> string \<Rightarrow> bool"
  filepath_Join :: "string list \<Rightarrow> string"
  filepath_Clean :: "string \<Rightarrow> string"
  filepath_Dir :: "string \<Rightarrow> string"

definition ascii_byte :: "char \<Rightarrow> bool" where
  "ascii_byte c = ((of_char c :: nat) < 128)"

definition ascii_space :: "char \<Rightarrow> bool" where
  "ascii_space c = (c \<in> set [CHR 0x09, CHR 0x0A, CHR 0x0B, CHR 0x0C, CHR 0x0D, CHR 0x20])"

definition is_ascii :: "string \<Rightarrow> bool" where
  "is_ascii s = list_all ascii_byte s"

definition lower_char :: "char \<Rightarrow> char" where
  "lower_char c =
     (if (65::nat) \<le> of_char c \<and> (of_char c :: nat) \<le> 90
      then char_of ((of_char c :: nat) + 32) else c)"

definition upper_char :: "char \<Rightarrow> char" where
  "upper_char c =
     (if (97::nat) \<le> of_char c \<and> (of_char c :: nat) \<le> 122
      then char_of ((of_char c :: nat) - 32) else c)"

definition ToLower :: "stdlib \<Rightarrow> string \<Rightarrow> string" where
  "ToLower lib s = (if is_ascii s then map lower_char s else Map_ToLower lib s)"

definition ToUpper :: "stdlib \<Rightarrow> string \<Rightarrow> string" where
  "ToUpper lib s = (if is_ascii s then map upper_char s else Map_ToUpper lib s)"

fun EqualFold :: "stdlib \<Rightarrow> string \<Rightarrow> string \<Rightarrow> bool" where
  "EqualFold lib [] [] = True"
| "EqualFold lib [] (tr # t) = False"
| "EqualFold lib (sr # s) [] = False"
| "EqualFold lib (sr # s) (tr # t) =
     (if \<not> ascii_byte sr \<or> \<not> ascii_byte tr then fold_runes lib (sr # s) (tr # t)
      else lower_char sr = lower_char tr \<and> EqualFold lib s t)"

section \<open>The PATH rewrite (internal/env/windows.go)\<close>

text \<open>The segment \<open>%JAVA_HOME%\bin\<close>; the backslash is byte \<open>0x5C\<close>.\<close>

definition java_home_bin :: string where
  "java_home_bin = ''%JAVA_HOME%'' @ [CHR 0x5C] @ ''bin''"

text \<open>
  The loop of \<open>updatePath\<close> over the segments of the current PATH, with \<open>newPaths\<close> as the
  accumulator.
\<close>

fun updatePath_loop :: "stdlib \<Rightarrow> string \<Rightarrow> string list \<Rightarrow> string list \<Rightarrow> string list" where
  "updatePath_loop lib oldJavaHome [] newPaths = newPaths"
| "updatePath_loop lib oldJavaHome (p0 # paths) newPaths =
     (let p = TrimSpace p0 in
      if p = [] then updatePath_loop lib oldJavaHome paths newPaths
      else if oldJavaHome \<noteq> [] \<and>
              (EqualFold lib p (filepath_Join lib [oldJavaHome, ''bin'']) \<or>
               EqualFold lib p java_home_bin)
        then updatePath_loop lib oldJavaHome paths newPaths
      else if oldJavaHome \<noteq> [] \<and> Contains (ToLower lib p) (ToLower lib oldJavaHome)
        then updatePath_loop lib oldJavaHome paths newPaths
      else if Contains (ToUpper lib p) ''%JAVA_HOME%''
        then updatePath_loop lib oldJavaHome paths newPaths
      else updatePath_loop lib oldJavaHome paths (newPaths @ [p]))"

text \<open>\<open>updatePath\<close> itself. The source never reads \<open>newJavaHome\<close>.\<close>

definition updatePath :: "stdlib \<Rightarrow> string \<Rightarrow> string \<Rightarrow> string \<Rightarrow> string" where
  "updatePath lib currentPath oldJavaHome newJavaHome =
     Join (java_home_bin # updatePath_loop lib oldJavaHome (Split currentPath (CHR '';'')) [])
          (CHR '';'')"

text \<open>The three tests of the loop body, named so that theorems can speak about them.\<close>

definition old_home_match :: "stdlib \<Rightarrow> string \<Rightarrow> string \<Rightarrow> bool" where
  "old_home_match lib oldJavaHome p =
     (oldJavaHome \<noteq> [] \<and>
      (EqualFold lib p (filepath_Join lib [oldJavaHome, ''bin'']) \<or>
       EqualFold lib p java_home_bin \<or>
       Contains (ToLower lib p) (ToLower lib oldJavaHome)))"

definition java_home_ref :: "stdlib \<Rightarrow> string \<Rightarrow> bool" where
  "java_home_ref lib p = Contains (ToUpper lib p) ''%JAVA_HOME%''"

definition survives :: "stdlib \<Rightarrow> string \<Rightarrow> string \<Rightarrow> bool" where
  "survives lib oldJavaHome p =
     (p \<noteq> [] \<and> \<not> old_home_match lib oldJavaHome p \<and> \<not> java_home_ref lib p)"

text \<open>
  A value of \<open>stdlib\<close> for the examples. The examples hold ASCII text only (apart from white
  space to be trimmed, which no case function sees before it is gone from the ends), so
  the three rune-wise functions are never consulted on data where they would differ from
  Go's; here they fold \<open>A..Z\<close> and leave all other bytes alone. \<open>sample_Join\<close> joins the
  non-empty elements of its operands with single backslashes, a slash counting as a
  separator: this is \<open>filepath.Join\<close> on Windows for operands that are relative or begin
  with a drive letter and have no \<open>.\<close> or \<open>..\<close> element. \<open>sample_Dir\<close> cuts off the last
  element, and \<open>filepath.Clean\<close> leaves a path of that kind as it is once its separators
  are single backslashes.
\<close>

definition to_backslash :: "char \<Rightarrow> char" where
  "to_backslash c = (if c = CHR ''/'' then CHR 0x5C else c)"

definition sample_Join :: "string list \<Rightarrow> string" where
  "sample_Join elems =
     Join (filter (\<lambda>x. x \<noteq> [])
             (concat (map (\<lambda>x. Split (map to_backslash x) (CHR 0x5C)) elems)))
          (CHR 0x5C)"

definition sample_Dir :: "string \<Rightarrow> string" where
  "sample_Dir p = rev (drop 1 (dropWhile (\<lambda>c. c \<noteq> CHR 0x5C) (rev p)))"

definition sample_lib :: stdlib where
  "sample_lib =
     \<lparr>Map_ToLower = map lower_char, Map_ToUpper = map upper_char,
      fold_runes = (\<lambda>s t. map lower_char s = map lower_char t),
      filepath_Join = sample_Join,
      filepath_Clean = (\<lambda>p. sample_Join [p]),
      filepath_Dir = sample_Dir\<rparr>"

text \<open>Concrete data for the examples: the homes \<open>C:\X\<close> and \<open>C:\Y\<close> and their \<open>bin\<close> folders.\<close>

definition home_X :: string where
  "home_X = ''C:'' @ [CHR 0x5C] @ ''X''"

definition home_Y :: string where
  "home_Y = ''C:'' @ [CHR 0x5C] @ ''Y''"

definition home_X_bin :: string where
  "home_X_bin = ''C:'' @ [CHR 0x5C] @ ''X'' @ [CHR 0x5C] @ ''bin''"

definition home_Y_bin :: string where
  "home_Y_bin = ''C:'' @ [CHR 0x5C] @ ''Y'' @ [CHR 0x5C] @ ''bin''"

text \<open>
  A PATH value with padded segments: the first begins with two spaces and ends with a
  no-break space (U+00A0), the second is a single space, the third is an ideographic
  space (U+3000), the fourth refers to \<open>%java_home%\<close>, the last begins with a line
  separator (U+2028) and ends with a tab.
\<close>

definition path_sample :: string where
  "path_sample =
     ''  C:'' @ [CHR 0x5C] @ ''Tools'' @ [CHR 0xC2, CHR 0xA0] @ ''; ;'' @
     [CHR 0xE3, CHR 0x80, CHR 0x80] @ '';%java_home%'' @ [CHR 0x5C] @ ''bin;'' @
     [CHR 0xE2, CHR 0x80, CHR 0xA8] @ ''D:'' @ [CHR 0x5C] @ ''Apps'' @ [CHR 0x09]"

text \<open>Sample PATH values: one holding the literal \<open>C:\Y\bin\<close>, one holding old-home
  segments in several casings.\<close>

definition path_literal :: string where
  "path_literal = home_Y_bin @ '';OTHER''"

definition path_old :: string where
  "path_old = ''c:'' @ [CHR 0x5C] @ ''x'' @ [CHR 0x5C] @ ''BIN;OTHER;C:'' @ [CHR 0x5C] @ ''X'' @ [CHR 0x5C] @ ''lib; %Java_Home%'' @ [CHR 0x5C] @ ''lib''"

definition x_bin_variant :: string where
  "x_bin_variant = ''c:'' @ [CHR 0x5C] @ ''x'' @ [CHR 0x5C] @ ''BIN''"

section \<open>Errors\<close>

text \<open>
  A Go \<open>error\<close> value, by the way the program builds it: \<open>Failure\<close> is an error with a
  fixed text (\<open>fmt.Errorf\<close> without arguments, or an error of the operating system or of a
  library); \<open>Wrap p e\<close> is \<open>fmt.Errorf(p + ": %w", e)\<close>; the other constructors are the
  formatted errors of the program, one per format string. \<open>LinkError\<close> is the error of
  \<open>os.Rename\<close>, which names the operation and both paths. \<open>IndexOutOfRange i n\<close> is the
  run-time panic of indexing a slice of length \<open>n\<close> at \<open>i\<close>.
\<close>

datatype go_error =
    Failure string
  | Wrap string go_error
  | DownloadStatus int
  | ApiStatus int
  | IncompleteDownload int int
  | ChecksumMismatch string string
  | LinkError string string string go_error
  | RollbackFailed go_error go_error
  | IndexOutOfRange nat nat

text \<open>The text of an error, as its \<open>Error()\<close> method gives it; numbers are printed in decimal.\<close>

fun show_nat :: "nat \<Rightarrow> string" where
  "show_nat n = (if n < 10 then [char_of (48 + n)] else show_nat (n div 10) @ [char_of (48 + n mod 10)])"

definition show_int :: "int \<Rightarrow> string" where
  "show_int i = (if i < 0 then CHR ''-'' # show_nat (nat (- i)) else show_nat (nat i))"

fun Error :: "go_error \<Rightarrow> string" where
  "Error (Failure m) = m"
| "Error (Wrap p err) = p @ '': '' @ Error err"
| "Error (DownloadStatus code) = ''download failed with status: '' @ show_int code"
| "Error (ApiStatus code) = ''API returned status '' @ show_int code @ '', using fallback versions''"
| "Error (IncompleteDownload got expected) =
     ''incomplete download: got '' @ show_int got @ '' bytes, expected '' @ show_int expected"
| "Error (ChecksumMismatch expected actual) =
     ''checksum mismatch: expected '' @ expected @ '', got '' @ actual"
| "Error (LinkError opn old new err) = opn @ '' '' @ old @ '' '' @ new @ '': '' @ Error err"
| "Error (RollbackFailed err rollbackErr) =
     ''update failed and rollback failed: update error: '' @ Error err @
     '', rollback error: '' @ Error rollbackErr"
| "Error (IndexOutOfRange i n) =
     ''runtime error: index out of range ['' @ show_nat i @ ''] with length '' @ show_nat n"

section \<open>The installed-package inventory (package config) and the installer runs
  (internal/installer/installer.go)\<close>

record InstalledJDK =
  Version :: string
  Path :: string
  Distributor :: string
  InstalledAt :: string
  Scope :: string

record UpdateConfig =
  Enabled :: bool
  AutoCheck :: bool
  LastCheck :: nat
  SkipVersion :: string

record Config =
  CustomPaths :: "string list"
  SearchPaths :: "string list"
  InstalledJDKs :: "InstalledJDK list"
  UpdateConfig :: UpdateConfig

definition AddCustomPath :: "stdlib \<Rightarrow> string \<Rightarrow> Config \<Rightarrow> Config" where
  "AddCustomPath lib path0 c =
     (let path = filepath_Clean lib (TrimSpace path0) in
      if path = [] \<or> path = ''.'' then c
      else if list_ex (\<lambda>p. EqualFold lib p path) (CustomPaths c) then c
      else c\<lparr>CustomPaths := CustomPaths c @ [path]\<rparr>)"

fun put_jdk :: "stdlib \<Rightarrow> InstalledJDK \<Rightarrow> InstalledJDK list \<Rightarrow> InstalledJDK list" where
  "put_jdk lib jdk [] = [jdk]"
| "put_jdk lib jdk (existing # rest) =
     (if EqualFold lib (Path existing) (Path jdk) then jdk # rest
      else existing # put_jdk lib jdk rest)"

definition AddInstalledJDK :: "stdlib \<Rightarrow> InstalledJDK \<Rightarrow> Config \<Rightarrow> Config" where
  "AddInstalledJDK lib jdk0 c =
     (let jdk = jdk0\<lparr>Path := filepath_Clean lib (Path jdk0)\<rparr>
      in c\<lparr>InstalledJDKs := put_jdk lib jdk (InstalledJDKs c)\<rparr>)"

text \<open>
  The state of a run: the configuration in memory and what \<open>Save\<close> last wrote. The
  surroundings of a run are its parameters: the library, the clock read in each iteration, whether
  \<open>Save\<close> succeeds, the answers given in the menus, and the outcome of \<open>InstallVersion\<close>
  for each version (its installed path, or its error).
\<close>

record installer_state =
  config :: Config
  saved :: "Config option"

record installer_env =
  installer_lib :: stdlib
  clock :: "nat \<Rightarrow> string"
  save_ok :: bool
  isAdmin :: bool
  distributor_name :: string
  InstallVersion :: "string \<Rightarrow> string \<Rightarrow> go_error + string"
  ui_version :: "go_error + string"
  ui_versions :: "go_error + string list"
  ui_scope :: "go_error + string"

text \<open>
  \<open>finalizeInstallation\<close>: the loop over \<open>paths\<close> reads \<open>versions[idx]\<close>, a panic when
  \<open>versions\<close> is shorter; the closing report reads \<open>versions[0]\<close> when there is one path and
  \<open>paths[idx]\<close> for every version otherwise. \<open>ConfigureEnvironment\<close> only prints and sets
  JAVA_HOME, and its error is printed and dropped, so it is left out.
\<close>

fun finalize_loop ::
  "installer_env \<Rightarrow> string list \<Rightarrow> string \<Rightarrow> string \<Rightarrow> nat \<Rightarrow> string list \<Rightarrow> Config
     \<Rightarrow> go_error + Config" where
  "finalize_loop e versions scope distributorName idx [] c = Inr c"
| "finalize_loop e versions scope distributorName idx (path # rest) c =
     (let c1 = (if EqualFold (installer_lib e) scope ''user''
                then AddCustomPath (installer_lib e) path c else c) in
      if idx < length versions then
        finalize_loop e versions scope distributorName (Suc idx) rest
          (AddInstalledJDK (installer_lib e)
             \<lparr>Version = versions ! idx, Path = path, Distributor = distributorName,
              InstalledAt = clock e idx, Scope = scope\<rparr> c1)
      else Inl (IndexOutOfRange idx (length versions)))"

definition print_details :: "string list \<Rightarrow> string list \<Rightarrow> go_error + unit" where
  "print_details paths versions =
     (if length paths = 1 then
        (if versions = [] then Inl (IndexOutOfRange 0 0) else Inr ())
      else if length paths < length versions
        then Inl (IndexOutOfRange (length paths) (length paths))
      else Inr ())"

definition finalizeInstallation ::
  "installer_env \<Rightarrow> string list \<Rightarrow> string list \<Rightarrow> string \<Rightarrow> string \<Rightarrow> installer_state
     \<Rightarrow> installer_state \<times> (go_error + unit)" where
  "finalizeInstallation e paths versions scope distributorName st =
     (case finalize_loop e versions scope distributorName 0 paths (config st) of
        Inl err \<Rightarrow> (st, Inl err)
      | Inr c \<Rightarrow>
          (\<lparr>config = c, saved = (if save_ok e then Some c else saved st)\<rparr>,
           print_details paths versions))"

definition SelectInstallScope :: "installer_env \<Rightarrow> go_error + string" where
  "SelectInstallScope e = (if \<not> isAdmin e then Inr ''user'' else ui_scope e)"

fun install_each :: "installer_env \<Rightarrow> string \<Rightarrow> string list \<Rightarrow> string list \<Rightarrow> string list" where
  "install_each e scope [] installedPaths = installedPaths"
| "install_each e scope (version # rest) installedPaths =
     (case InstallVersion e version scope of
        Inl err \<Rightarrow> install_each e scope rest installedPaths
      | Inr installedPath \<Rightarrow> install_each e scope rest (installedPaths @ [installedPath]))"

definition RunMultiInstall :: "installer_env \<Rightarrow> installer_state \<Rightarrow> installer_state \<times> (go_error + unit)" where
  "RunMultiInstall e st =
     (case ui_versions e of
        Inl err \<Rightarrow> (st, Inl err)
      | Inr versions \<Rightarrow>
          if versions = [] then (st, Inl (Failure ''no versions selected''))
          else (case SelectInstallScope e of
                  Inl err \<Rightarrow> (st, Inl err)
                | Inr scope \<Rightarrow>
                    finalizeInstallation e (install_each e scope versions []) versions scope
                      (distributor_name e) st))"

definition RunSingleInstall :: "installer_env \<Rightarrow> installer_state \<Rightarrow> installer_state \<times> (go_error + unit)" where
  "RunSingleInstall e st =
     (case ui_version e of
        Inl err \<Rightarrow> (st, Inl err)
      | Inr version \<Rightarrow>
          (case SelectInstallScope e of
             Inl err \<Rightarrow> (st, Inl err)
           | Inr scope \<Rightarrow>
               (case InstallVersion e version scope of
                  Inl err \<Rightarrow> (st, Inl err)
                | Inr installedPath \<Rightarrow>
                    finalizeInstallation e [installedPath] [version] scope (distributor_name e) st)))"

text \<open>A run that selects 17 and 21, where the installation of 17 fails, and a run that
  selects 21 and 17, in the order of the menu (newest first), where the installation of
  21 fails.\<close>

definition jdk21_path :: string where
  "jdk21_path = ''C:'' @ [CHR 0x5C] @ ''Users'' @ [CHR 0x5C] @ ''u'' @ [CHR 0x5C] @ ''.jv'' @ [CHR 0x5C] @ ''jdk-21''"

definition env_17_fails :: installer_env where
  "env_17_fails =
     \<lparr>installer_lib = sample_lib, clock = (\<lambda>i. ''2025-01-01T00:00:00Z''), save_ok = True, isAdmin = False,
      distributor_name = ''Eclipse Adoptium'',
      InstallVersion = (\<lambda>version scope.
         if version = ''21'' then Inr jdk21_path else Inl (Failure ''installation failed: download failed'')),
      ui_version = Inr ''21'',
      ui_versions = Inr [''17'', ''21''],
      ui_scope = Inr ''user''\<rparr>"

definition jdk17_path :: string where
  "jdk17_path = ''C:'' @ [CHR 0x5C] @ ''Users'' @ [CHR 0x5C] @ ''u'' @ [CHR 0x5C] @ ''.jv'' @ [CHR 0x5C] @ ''jdk-17''"

definition env_21_fails :: installer_env where
  "env_21_fails =
     \<lparr>installer_lib = sample_lib, clock = (\<lambda>i. ''2025-01-01T00:00:00Z''), save_ok = True, isAdmin = False,
      distributor_name = ''Eclipse Adoptium'',
      InstallVersion = (\<lambda>version scope.
         if version = ''17'' then Inr jdk17_path else Inl (Failure ''installation failed: download failed'')),
      ui_version = Inr ''17'',
      ui_versions = Inr [''21'', ''17''],
      ui_scope = Inr ''user''\<rparr>"

text \<open>The configuration that \<open>Load\<close> returns when no file exists yet.\<close>

definition default_config :: Config where
  "default_config =
     \<lparr>CustomPaths = [], SearchPaths = [], InstalledJDKs = [],
      UpdateConfig = \<lparr>Enabled = True, AutoCheck = True, LastCheck = 0, SkipVersion = []\<rparr>\<rparr>"

definition empty_state :: installer_state where
  "empty_state = \<lparr>config = default_config, saved = None\<rparr>"

section \<open>The file system and the surroundings of the pipelines\<close>

text \<open>
  Paths are strings. \<open>within dir q\<close> says that \<open>q\<close> is \<open>dir\<close> or lies below it. The file
  system maps a path to what is there; every call of the standard library that the
  pipelines make is recorded in \<open>trace\<close>, in order. Where a call can fail and the source
  tests its error, the failure is a parameter of the surroundings (\<open>sys_env\<close>), by path.
\<close>

definition within :: "string \<Rightarrow> string \<Rightarrow> bool" where
  "within dir q = (q = dir \<or> HasPrefix q (dir @ [CHR 0x5C]))"


datatype node = Dir | File string

type_synonym fs = "string \<Rightarrow> node option"

datatype event =
    EvMkdirAll string
  | EvCreate string
  | EvHttpGet string
  | EvCopy string
  | EvOpen string
  | EvZipOpenReader string
  | EvStat string
  | EvRemoveAll string
  | EvRename string string
  | EvReadFile string
  | EvWriteFile string
  | EvUpdateTo string

record world =
  files :: fs
  trace :: "event list"

record http_response =
  StatusCode :: int
  ContentLength :: int
  Body :: string
  BodyErr :: "go_error option"

record zip_entry =
  Name :: string
  IsDir :: bool
  Data :: string
  OpenErr :: "go_error option"
  CopyErr :: "go_error option"

text \<open>
  How a call of \<open>WithSpinner\<close> ends (internal/installer/spinner.go). \<open>WithSpinner\<close> starts
  its function in a goroutine of its own, which sleeps 100 ms and then calls it, and runs
  the display; it returns when the display returns. The display quits on the message
  that the function has finished, and also on ctrl+c, or with an error of its own.
  \<open>Completed r\<close>: the function ran to its end before \<open>WithSpinner\<close> returned \<open>r\<close>.
  \<open>Abandoned r\<close>: \<open>WithSpinner\<close> returned \<open>r\<close> (\<open>nil\<close> after ctrl+c) while the function had
  not finished; the variables it assigns at its end still hold their zero values, and
  the goroutine runs on.
\<close>

datatype spinner_end = Completed "go_error option" | Abandoned "go_error option"

record sys_env =
  library :: stdlib
  user_home :: "go_error + string"
  temp_dir :: string
  mkdir_err :: "string \<Rightarrow> go_error option"
  create_err :: "string \<Rightarrow> go_error option"
  http_get :: "string \<Rightarrow> go_error + http_response"
  open_err :: "string \<Rightarrow> go_error option"
  read_err :: "string \<Rightarrow> go_error option"
  sha256 :: "string \<Rightarrow> string"
  spinner :: "string \<Rightarrow> spinner_end"
  read_zip :: "string \<Rightarrow> go_error + zip_entry list"
  remove_err :: "string \<Rightarrow> go_error option"
  rename_err :: "string \<Rightarrow> string \<Rightarrow> go_error option"

text \<open>
  The calls of package \<open>os\<close>, as its documentation describes them. \<open>MkdirAll\<close> makes the
  directory and every missing parent. \<open>Create\<close> makes the file or, when it exists, truncates
  it (it opens with \<open>O_RDWR|O_CREATE|O_TRUNC\<close>, without \<open>O_EXCL\<close>); \<open>OpenFile\<close> with
  \<open>O_WRONLY|O_CREATE|O_TRUNC\<close> does the same. \<open>RemoveAll\<close> removes the path and all below
  it. \<open>Rename\<close> moves a file or a directory with all below it, and reports a failure as a
  \<open>LinkError\<close> with the operation and both paths. \<open>Stat\<close> tells whether the path exists.
\<close>

definition logged :: "event \<Rightarrow> world \<Rightarrow> world" where
  "logged ev w = w\<lparr>trace := trace w @ [ev]\<rparr>"


definition os_Create :: "sys_env \<Rightarrow> string \<Rightarrow> world \<Rightarrow> world \<times> go_error option" where
  "os_Create e p w =
     (let w1 = logged (EvCreate p) w in
      case create_err e p of
        Some err \<Rightarrow> (w1, Some err)
      | None \<Rightarrow> (w1\<lparr>files := (files w1)(p \<mapsto> File [])\<rparr>, None))"


definition os_Rename :: "sys_env \<Rightarrow> string \<Rightarrow> string \<Rightarrow> world \<Rightarrow> world \<times> go_error option" where
  "os_Rename e src dst w =
     (let w1 = logged (EvRename src dst) w in
      case rename_err e src dst of
        Some err \<Rightarrow> (w1, Some (LinkError ''rename'' src dst err))
      | None \<Rightarrow>
          (if src = [] \<or> files w1 src = None
           then (w1, Some (LinkError ''rename'' src dst (Failure ''The system cannot find the file specified.'')))
           else (w1\<lparr>files := (\<lambda>q. if q = dst then files w1 src
                                    else if HasPrefix q (dst @ [CHR 0x5C])
                                      then files w1 (src @ drop (length dst) q)
                                    else if within src q then None
                                    else files w1 q)\<rparr>, None)))"


section \<open>Download, verification and extraction (package installer)\<close>


text \<open>
  \<open>DownloadFile\<close>. The progress display is left out. \<open>io.Copy\<close> moves \<open>Body\<close>, the bytes
  the response delivers, into the file and reports their number, with \<open>BodyErr\<close> as its
  error when the transfer breaks.
\<close>

definition DownloadFile :: "sys_env \<Rightarrow> string \<Rightarrow> string \<Rightarrow> world \<Rightarrow> world \<times> go_error option" where
  "DownloadFile e url destPath w =
     (case os_Create e destPath w of
        (w1, Some err) \<Rightarrow> (w1, Some (Wrap ''failed to create file'' err))
      | (w1, None) \<Rightarrow>
          (let w2 = logged (EvHttpGet url) w1 in
           case http_get e url of
             Inl err \<Rightarrow> (w2, Some (Wrap ''failed to download'' err))
           | Inr resp \<Rightarrow>
               if StatusCode resp \<noteq> 200
               then (w2, Some (DownloadStatus (StatusCode resp)))
               else
                 (let totalSize = ContentLength resp;
                      w3 = (logged (EvCopy destPath) w2)
                             \<lparr>files := (files w2)(destPath \<mapsto> File (Body resp))\<rparr>;
                      written = int (length (Body resp))
                  in case BodyErr resp of
                       Some err \<Rightarrow> (w3, Some (Wrap ''failed to write file'' err))
                     | None \<Rightarrow>
                         if written \<noteq> totalSize
                         then (w3, Some (IncompleteDownload written totalSize))
                         else (w3, None))))"

text \<open>
  What \<open>net/http\<close> guarantees of the body of a response (\<open>Response.ContentLength\<close> and the
  readers of the transport): the length is \<open>-1\<close> when it is unknown (no
  \<open>Content-Length\<close>, a chunked or a transparently decompressed response); a body with a
  declared length never delivers more bytes than that, and when it delivers fewer,
  reading it ends with an error (\<open>unexpected EOF\<close>).
\<close>

definition net_http_body :: "http_response \<Rightarrow> bool" where
  "net_http_body resp =
     (- 1 \<le> ContentLength resp \<and>
      (0 \<le> ContentLength resp \<longrightarrow>
         int (length (Body resp)) \<le> ContentLength resp \<and>
         (int (length (Body resp)) < ContentLength resp \<longrightarrow> BodyErr resp \<noteq> None)))"























section \<open>Self-update (internal/updater/updater.go)\<close>

text \<open>
  A release of the self-update library, with the fields the program reads. The library's
  \<open>UpdateTo\<close> is the parameter \<open>update_to\<close>: its error, and what it leaves at the path of
  the executable. The removal of the backup ten seconds after a successful update runs in
  a goroutine of its own and is not part of what \<open>PerformUpdate\<close> returns.
\<close>

record release =
  AssetURL :: string
  AssetName :: string
  ReleaseVersion :: string

record updater_env =
  sys :: sys_env
  executable :: "go_error + string"
  readfile_err :: "string \<Rightarrow> go_error option"
  writefile_err :: "string \<Rightarrow> go_error option"
  update_to :: "string \<Rightarrow> string \<Rightarrow> string \<Rightarrow> go_error option \<times> node option"

definition copyFile :: "updater_env \<Rightarrow> string \<Rightarrow> string \<Rightarrow> world \<Rightarrow> world \<times> go_error option" where
  "copyFile u src dst w =
     (let w1 = logged (EvReadFile src) w in
      case readfile_err u src of
        Some err \<Rightarrow> (w1, Some err)
      | None \<Rightarrow>
          (case files w src of
             Some (File data) \<Rightarrow>
               (let w2 = logged (EvWriteFile dst) w1 in
                case writefile_err u dst of
                  Some err \<Rightarrow> (w2, Some err)
                | None \<Rightarrow> (w2\<lparr>files := (files w2)(dst \<mapsto> File data)\<rparr>, None))
           | Some Dir \<Rightarrow> (w1, Some (Failure ''is a directory''))
           | None \<Rightarrow> (w1, Some (Failure ''The system cannot find the file specified.''))))"

definition selfupdate_UpdateTo ::
  "updater_env \<Rightarrow> string \<Rightarrow> string \<Rightarrow> string \<Rightarrow> world \<Rightarrow> world \<times> go_error option" where
  "selfupdate_UpdateTo u assetURL assetName exe w =
     (let w1 = logged (EvUpdateTo exe) w in
      case update_to u assetURL assetName exe of
        (err, left) \<Rightarrow> (w1\<lparr>files := (files w1)(exe := left)\<rparr>, err))"

definition PerformUpdate :: "updater_env \<Rightarrow> release \<Rightarrow> world \<Rightarrow> world \<times> go_error option" where
  "PerformUpdate u rel w =
     (case executable u of
        Inl err \<Rightarrow> (w, Some (Wrap ''failed to determine executable path'' err))
      | Inr exe \<Rightarrow>
          (let backup = exe @ ''.backup'' in
           case copyFile u exe backup w of
             (w1, Some err) \<Rightarrow> (w1, Some (Wrap ''failed to create backup'' err))
           | (w1, None) \<Rightarrow>
               (case selfupdate_UpdateTo u (AssetURL rel) (AssetName rel) exe w1 of
                  (w2, Some err) \<Rightarrow>
                    (case os_Rename (sys u) backup exe w2 of
                       (w3, Some rollbackErr) \<Rightarrow> (w3, Some (RollbackFailed err rollbackErr))
                     | (w3, None) \<Rightarrow> (w3, Some (Wrap ''update failed (rolled back)'' err)))
                | (w2, None) \<Rightarrow> (w2, None))))"

section \<open>Version discovery (Adoptium distributor) and the update check\<close>

text \<open>
  The field \<open>Version\<close> of \<open>JavaRelease\<close> is \<open>RelVersion\<close> here, \<open>InstalledJDK\<close> having a field of
  that name. The surroundings of the discovery: the answer of the API to a request, the
  JSON decoder (\<open>parse_releases\<close>), the error of the spinner display, and what the user
  picks from a menu of values.
\<close>

record JavaRelease =
  RelVersion :: string
  IsLTS :: bool
  OpenJDKVersion :: string

record adoptiumReleasesResponse =
  AvailableLTSReleases :: "int list"
  AvailableReleases :: "int list"
  MostRecentLTS :: int
  MostRecentFeatureRelease :: int

record discovery_env =
  api_get :: "string \<Rightarrow> go_error + http_response"
  parse_releases :: "string \<Rightarrow> go_error + adoptiumReleasesResponse"
  fetch_spinner_err :: "go_error option"
  choose_one :: "string list \<Rightarrow> go_error + string"
  choose_many :: "string list \<Rightarrow> go_error + string list"

definition adoptiumAPIBase :: string where
  "adoptiumAPIBase = ''https://api.adoptium.net/v3''"

definition getFallbackVersions :: "JavaRelease list" where
  "getFallbackVersions =
     [\<lparr>RelVersion = ''25'', IsLTS = True, OpenJDKVersion = []\<rparr>,
      \<lparr>RelVersion = ''24'', IsLTS = False, OpenJDKVersion = []\<rparr>,
      \<lparr>RelVersion = ''23'', IsLTS = False, OpenJDKVersion = []\<rparr>,
      \<lparr>RelVersion = ''22'', IsLTS = False, OpenJDKVersion = []\<rparr>,
      \<lparr>RelVersion = ''21'', IsLTS = True, OpenJDKVersion = []\<rparr>,
      \<lparr>RelVersion = ''20'', IsLTS = False, OpenJDKVersion = []\<rparr>,
      \<lparr>RelVersion = ''19'', IsLTS = False, OpenJDKVersion = []\<rparr>,
      \<lparr>RelVersion = ''18'', IsLTS = False, OpenJDKVersion = []\<rparr>,
      \<lparr>RelVersion = ''17'', IsLTS = True, OpenJDKVersion = []\<rparr>,
      \<lparr>RelVersion = ''16'', IsLTS = False, OpenJDKVersion = []\<rparr>,
      \<lparr>RelVersion = ''11'', IsLTS = True, OpenJDKVersion = []\<rparr>,
      \<lparr>RelVersion = ''8'', IsLTS = True, OpenJDKVersion = []\<rparr>]"

text \<open>Go compares strings byte by byte; \<open>sort.Slice\<close> with \<open>Version[i] > Version[j]\<close> sorts in
  descending order (the order of equal versions is not fixed by Go; insertion keeps it).\<close>

fun str_less :: "string \<Rightarrow> string \<Rightarrow> bool" where
  "str_less [] [] = False"
| "str_less [] (y # ys) = True"
| "str_less (x # xs) [] = False"
| "str_less (x # xs) (y # ys) =
     ((of_char x :: nat) < of_char y \<or> (x = y \<and> str_less xs ys))"

fun insert_desc :: "JavaRelease \<Rightarrow> JavaRelease list \<Rightarrow> JavaRelease list" where
  "insert_desc r [] = [r]"
| "insert_desc r (x # xs) =
     (if str_less (RelVersion r) (RelVersion x) then x # insert_desc r xs else r # x # xs)"

definition sort_desc :: "JavaRelease list \<Rightarrow> JavaRelease list" where
  "sort_desc rs = foldr insert_desc rs []"

definition GetAvailableVersions :: "discovery_env \<Rightarrow> JavaRelease list \<times> go_error option" where
  "GetAvailableVersions d =
     (let url = adoptiumAPIBase @ ''/info/available_releases'' in
      case api_get d url of
        Inl err \<Rightarrow>
          (getFallbackVersions, Some (Wrap ''API request failed, using fallback versions'' err))
      | Inr resp \<Rightarrow>
          if StatusCode resp \<noteq> 200
          then (getFallbackVersions, Some (ApiStatus (StatusCode resp)))
          else
            (case BodyErr resp of
               Some err \<Rightarrow>
                 (getFallbackVersions,
                  Some (Wrap ''failed to read response, using fallback versions'' err))
             | None \<Rightarrow>
                 (case parse_releases d (Body resp) of
                    Inl err \<Rightarrow>
                      (getFallbackVersions,
                       Some (Wrap ''failed to parse response, using fallback versions'' err))
                  | Inr releasesResp \<Rightarrow>
                      (sort_desc
                         (map (\<lambda>v. \<lparr>RelVersion = show_int v,
                                    IsLTS = (v \<in> set (AvailableLTSReleases releasesResp)),
                                    OpenJDKVersion = []\<rparr>)
                            (AvailableReleases releasesResp)),
                       None))))"


definition SelectMultipleVersions :: "discovery_env \<Rightarrow> go_error + string list" where
  "SelectMultipleVersions d =
     (case GetAvailableVersions d of (releases, fetchErr) \<Rightarrow>
      case fetch_spinner_err d of
        Some spinnerErr \<Rightarrow> Inl spinnerErr
      | None \<Rightarrow>
          (case fetchErr of
             Some err \<Rightarrow> Inl err
           | None \<Rightarrow> choose_many d (map RelVersion releases)))"







section \<open>Sample surroundings for the examples\<close>

definition sample_response :: http_response where
  "sample_response = \<lparr>StatusCode = 200, ContentLength = 3, Body = ''zip'', BodyErr = None\<rparr>"

definition sample_env :: sys_env where
  "sample_env =
     \<lparr>library = sample_lib,
      user_home = Inr (''C:'' @ [CHR 0x5C] @ ''Users'' @ [CHR 0x5C] @ ''u''),
      temp_dir = ''C:'' @ [CHR 0x5C] @ ''Temp'',
      mkdir_err = (\<lambda>p. None), create_err = (\<lambda>p. None),
      http_get = (\<lambda>url. Inr sample_response),
      open_err = (\<lambda>p. None), read_err = (\<lambda>p. None),
      sha256 = (\<lambda>content. [CHR 0xAB, CHR 0x01]),
      spinner = (\<lambda>message. Completed None),
      read_zip = (\<lambda>content. Inr [\<lparr>Name = ''jdk-21/'', IsDir = True, Data = [], OpenErr = None, CopyErr = None\<rparr>,
                                  \<lparr>Name = ''jdk-21/bin/java.exe'', IsDir = False, Data = ''exe'', OpenErr = None, CopyErr = None\<rparr>]),
      remove_err = (\<lambda>p. None), rename_err = (\<lambda>a b. None)\<rparr>"


definition empty_world :: world where
  "empty_world = \<lparr>files = (\<lambda>p. None), trace = []\<rparr>"

text \<open>Two responses: one that declares three bytes and breaks off after two, and one
  that declares no length and delivers its three bytes.\<close>

definition truncated_response :: http_response where
  "truncated_response =
     \<lparr>StatusCode = 200, ContentLength = 3, Body = ''zi'', BodyErr = Some (Failure ''unexpected EOF'')\<rparr>"

definition truncated_env :: sys_env where
  "truncated_env = sample_env\<lparr>http_get := (\<lambda>url. Inr truncated_response)\<rparr>"

definition unsized_response :: http_response where
  "unsized_response = \<lparr>StatusCode = 200, ContentLength = - 1, Body = ''zip'', BodyErr = None\<rparr>"

definition unsized_env :: sys_env where
  "unsized_env = sample_env\<lparr>http_get := (\<lambda>url. Inr unsized_response)\<rparr>"



definition offline_env :: sys_env where
  "offline_env = sample_env\<lparr>http_get := (\<lambda>url. Inl (Failure ''dial tcp: no such host''))\<rparr>"

definition dest_sample :: string where
  "dest_sample = ''C:'' @ [CHR 0x5C] @ ''Temp'' @ [CHR 0x5C] @ ''jv-install'' @ [CHR 0x5C] @ ''jdk21.zip''"

definition world_with_dest :: world where
  "world_with_dest = \<lparr>files = (\<lambda>p. if p = dest_sample then Some (File ''earlier content'') else None), trace = []\<rparr>"








definition exe_sample :: string where
  "exe_sample = ''C:'' @ [CHR 0x5C] @ ''Tools'' @ [CHR 0x5C] @ ''jv.exe''"

definition world_with_exe :: world where
  "world_with_exe = \<lparr>files = (\<lambda>p. if p = exe_sample then Some (File ''version 1'') else None), trace = []\<rparr>"

definition sample_release :: release where
  "sample_release = \<lparr>AssetURL = ''https://example.org/jv.zip'', AssetName = ''jv.zip'', ReleaseVersion = ''1.1.0''\<rparr>"

definition broken_update :: updater_env where
  "broken_update =
     \<lparr>sys = sample_env, executable = Inr exe_sample,
      readfile_err = (\<lambda>p. None), writefile_err = (\<lambda>p. None),
      update_to = (\<lambda>assetURL assetName exe. (Some (Failure ''checksum validation failed''), Some (File ''partial'')))\<rparr>"

definition broken_update_locked :: updater_env where
  "broken_update_locked =
     broken_update\<lparr>sys := sample_env\<lparr>rename_err := (\<lambda>a b. Some (Failure ''Access is denied.''))\<rparr>\<rparr>"



section \<open>Properties of the string helpers\<close>

lemma Split_nonempty: "Split s d \<noteq> []"
  by (induction s) (auto split: list.splits)

lemma Split_no_delim: "x \<in> set (Split s d) \<Longrightarrow> d \<notin> set x"
  by (induction s arbitrary: x) (auto split: list.splits if_splits)

lemma Split_single: "d \<notin> set x \<Longrightarrow> Split x d = [x]"
  by (induction x) auto

lemma Split_append: "d \<notin> set x \<Longrightarrow> Split (x @ d # r) d = x # Split r d"
  by (induction x) (auto split: list.splits)

lemma Split_Join:
  "xs \<noteq> [] \<Longrightarrow> (\<And>x. x \<in> set xs \<Longrightarrow> d \<notin> set x) \<Longrightarrow> Split (Join xs d) d = xs"
  by (induction xs d rule: Join.induct) (auto simp: Split_single Split_append)

lemma HasPrefix_iff: "HasPrefix s p \<longleftrightarrow> (\<exists>t. s = p @ t)"
  by (induction s p rule: HasPrefix.induct) auto

lemma HasPrefix_hd: "r \<noteq> [] \<Longrightarrow> HasPrefix s r \<Longrightarrow> s \<noteq> [] \<and> hd s = hd r"
  by (cases s; cases r) auto

lemma trim_left_fixed:
  "find (\<lambda>r. r \<noteq> [] \<and> HasPrefix s r) runes = None \<Longrightarrow> trim_left runes s = s"
  by (subst trim_left.simps) simp

lemma trim_left_step:
  "find (\<lambda>r. r \<noteq> [] \<and> HasPrefix s r) runes = Some r \<Longrightarrow>
     trim_left runes s = trim_left runes (drop (length r) s)"
  by (subst trim_left.simps) simp

lemma trim_left_suffix: "\<exists>a. s = a @ trim_left runes s"
proof (induction runes s rule: trim_left.induct)
  case (1 runes s)
  show ?case
  proof (cases "find (\<lambda>r. r \<noteq> [] \<and> HasPrefix s r) runes")
    case None
    then have "s = [] @ trim_left runes s" by (simp add: trim_left_fixed)
    then show ?thesis ..
  next
    case (Some r)
    from 1 [OF Some] obtain a where
      a: "drop (length r) s = a @ trim_left runes (drop (length r) s)" ..
    have "s = take (length r) s @ drop (length r) s" by simp
    also have "\<dots> = take (length r) s @ a @ trim_left runes s"
      using a by (simp only: trim_left_step [OF Some])
    finally have "s = (take (length r) s @ a) @ trim_left runes s" by simp
    then show ?thesis ..
  qed
qed

lemma trim_left_done:
  "find (\<lambda>r. r \<noteq> [] \<and> HasPrefix (trim_left runes s) r) runes = None"
proof (induction runes s rule: trim_left.induct)
  case (1 runes s)
  show ?case
  proof (cases "find (\<lambda>r. r \<noteq> [] \<and> HasPrefix s r) runes")
    case None
    then show ?thesis by (simp add: trim_left_fixed)
  next
    case (Some r)
    from 1 [OF Some] show ?thesis by (simp only: trim_left_step [OF Some])
  qed
qed

lemma trim_left_idem: "trim_left runes (trim_left runes s) = trim_left runes s"
  by (rule trim_left_fixed) (rule trim_left_done)

lemma trim_left_Nil: "trim_left runes [] = []"
  using trim_left_suffix [of "[]" runes] by simp

lemma set_trim_left: "set (trim_left runes s) \<subseteq> set s"
proof -
  obtain a where "s = a @ trim_left runes s" using trim_left_suffix ..
  then have "set s = set a \<union> set (trim_left runes s)" by (metis set_append)
  then show ?thesis by blast
qed

lemma set_TrimSpace: "set (TrimSpace s) \<subseteq> set s"
proof -
  have "set (TrimSpace s) = set (trim_left (map rev space_runes) (rev (trim_left space_runes s)))"
    by (simp add: TrimSpace_def)
  also have "\<dots> \<subseteq> set (rev (trim_left space_runes s))" by (rule set_trim_left)
  also have "\<dots> \<subseteq> set s" using set_trim_left [of space_runes s] by simp
  finally show ?thesis .
qed

lemma TrimSpace_idem: "TrimSpace (TrimSpace s) = TrimSpace s"
proof -
  define t where "t = trim_left space_runes s"
  define u where "u = trim_left (map rev space_runes) (rev t)"
  have ts: "TrimSpace s = rev u"
    by (simp add: TrimSpace_def t_def u_def)
  obtain a where "rev t = a @ u"
    unfolding u_def using trim_left_suffix by blast
  then have "rev (rev t) = rev (a @ u)" by (rule arg_cong)
  then have t: "t = rev u @ rev a" by simp
  have tdone: "find (\<lambda>r. r \<noteq> [] \<and> HasPrefix t r) space_runes = None"
    unfolding t_def by (rule trim_left_done)
  have "\<not> (r \<noteq> [] \<and> HasPrefix (rev u) r)" if "r \<in> set space_runes" for r
  proof
    assume h: "r \<noteq> [] \<and> HasPrefix (rev u) r"
    then obtain b where "rev u = r @ b" by (auto simp: HasPrefix_iff)
    then have "t = r @ (b @ rev a)" by (simp add: t)
    then have "HasPrefix t r" unfolding HasPrefix_iff ..
    with h that tdone show False by (auto simp: find_None_iff)
  qed
  then have "find (\<lambda>r. r \<noteq> [] \<and> HasPrefix (rev u) r) space_runes = None"
    by (auto simp: find_None_iff)
  then have front: "trim_left space_runes (rev u) = rev u"
    by (rule trim_left_fixed)
  have rear: "trim_left (map rev space_runes) u = u"
    unfolding u_def by (rule trim_left_idem)
  show ?thesis
    unfolding ts by (simp add: TrimSpace_def front rear)
qed

lemma TrimSpace_blank: "blank s \<Longrightarrow> TrimSpace s = []"
  by (simp add: blank_def TrimSpace_def trim_left_Nil)

lemma TrimSpace_fixed_not_blank: "p \<noteq> [] \<Longrightarrow> TrimSpace p = p \<Longrightarrow> \<not> blank p"
  using TrimSpace_blank by force

text \<open>A string without ASCII white space and without bytes from \<open>0x80\<close> on has nothing to
  trim: every white-space rune begins and ends with such a byte.\<close>

lemma space_runes_ends:
  "r \<in> set space_runes \<Longrightarrow>
     r \<noteq> [] \<and> (ascii_space (hd r) \<or> \<not> ascii_byte (hd r)) \<and>
     (ascii_space (last r) \<or> \<not> ascii_byte (last r))"
proof -
  have "list_all (\<lambda>r. r \<noteq> [] \<and> (ascii_space (hd r) \<or> \<not> ascii_byte (hd r)) \<and>
     (ascii_space (last r) \<or> \<not> ascii_byte (last r))) space_runes"
    by code_simp
  then show "r \<in> set space_runes \<Longrightarrow>
     r \<noteq> [] \<and> (ascii_space (hd r) \<or> \<not> ascii_byte (hd r)) \<and>
     (ascii_space (last r) \<or> \<not> ascii_byte (last r))"
    unfolding list_all_iff by blast
qed

lemma trim_left_plain_front:
  assumes "s = [] \<or> (ascii_byte (hd s) \<and> \<not> ascii_space (hd s))"
  shows "trim_left space_runes s = s"
proof (rule trim_left_fixed)
  have "\<not> (r \<noteq> [] \<and> HasPrefix s r)" if "r \<in> set space_runes" for r
  proof
    assume "r \<noteq> [] \<and> HasPrefix s r"
    then have "s \<noteq> [] \<and> hd s = hd r" using HasPrefix_hd [of r s] by blast
    with assms space_runes_ends [OF that] show False by auto
  qed
  then show "find (\<lambda>r. r \<noteq> [] \<and> HasPrefix s r) space_runes = None"
    by (auto simp: find_None_iff)
qed

lemma trim_left_plain_rear:
  assumes "s = [] \<or> (ascii_byte (last s) \<and> \<not> ascii_space (last s))"
  shows "trim_left (map rev space_runes) (rev s) = rev s"
proof (rule trim_left_fixed)
  have "\<not> (r' \<noteq> [] \<and> HasPrefix (rev s) r')" if "r' \<in> set (map rev space_runes)" for r'
  proof
    assume h: "r' \<noteq> [] \<and> HasPrefix (rev s) r'"
    from that obtain r where r: "r \<in> set space_runes" and r': "r' = rev r" by auto
    from h have "rev s \<noteq> [] \<and> hd (rev s) = hd r'" using HasPrefix_hd [of r' "rev s"] by blast
    then have "s \<noteq> [] \<and> last s = last r"
      using space_runes_ends [OF r] by (simp add: r' hd_rev)
    with assms space_runes_ends [OF r] show False by auto
  qed
  then show "find (\<lambda>r. r \<noteq> [] \<and> HasPrefix (rev s) r) (map rev space_runes) = None"
    by (auto simp: find_None_iff)
qed

lemma TrimSpace_plain:
  assumes "\<forall>c \<in> set s. ascii_byte c \<and> \<not> ascii_space c"
  shows "TrimSpace s = s"
proof -
  have "s = [] \<or> (ascii_byte (hd s) \<and> \<not> ascii_space (hd s))"
    using assms by (cases s) auto
  then have front: "trim_left space_runes s = s" by (rule trim_left_plain_front)
  have "s = [] \<or> (ascii_byte (last s) \<and> \<not> ascii_space (last s))"
    using assms by (cases "s = []") auto
  then have rear: "trim_left (map rev space_runes) (rev s) = rev s"
    by (rule trim_left_plain_rear)
  show ?thesis by (simp add: TrimSpace_def front rear)
qed

lemma EqualFold_ascii:
  "is_ascii s \<Longrightarrow> is_ascii t \<Longrightarrow> EqualFold lib s t = (map lower_char s = map lower_char t)"
  by (induction lib s t rule: EqualFold.induct) (auto simp: is_ascii_def)

section \<open>Properties of the PATH rewrite\<close>

lemma updatePath_loop_filter:
  "updatePath_loop lib old ps acc = acc @ filter (survives lib old) (map TrimSpace ps)"
  by (induction ps arbitrary: acc)
     (auto simp: Let_def survives_def old_home_match_def java_home_ref_def)

lemma java_home_bin_facts:
  "CHR '';'' \<notin> set java_home_bin" "TrimSpace java_home_bin = java_home_bin"
  "java_home_ref lib java_home_bin" "java_home_bin \<noteq> []"
proof -
  show "CHR '';'' \<notin> set java_home_bin" by (simp add: java_home_bin_def)
  show "TrimSpace java_home_bin = java_home_bin" by code_simp
  have "is_ascii java_home_bin" by code_simp
  moreover have "Contains (map upper_char java_home_bin) ''%JAVA_HOME%''" by code_simp
  ultimately show "java_home_ref lib java_home_bin"
    by (simp add: java_home_ref_def ToUpper_def)
  show "java_home_bin \<noteq> []" by (simp add: java_home_bin_def)
qed

lemma survivors_trimmed:
  "p \<in> set (filter (survives lib old) (map TrimSpace ps)) \<Longrightarrow> TrimSpace p = p \<and> p \<noteq> []"
  by (auto simp: survives_def TrimSpace_idem)

lemma survivors_no_delim:
  assumes "p \<in> set (filter (survives lib old) (map TrimSpace (Split s d)))"
  shows "d \<notin> set p"
proof -
  from assms obtain q where q: "q \<in> set (Split s d)" and p: "p = TrimSpace q"
    by auto
  from q have "d \<notin> set q" by (rule Split_no_delim)
  with set_TrimSpace [of q] show ?thesis by (auto simp: p)
qed

lemma segments_no_delim:
  assumes "x \<in> set (java_home_bin # filter (survives lib old) (map TrimSpace (Split L (CHR '';''))))"
  shows "CHR '';'' \<notin> set x"
proof (cases "x = java_home_bin")
  case True
  then show ?thesis by (simp add: java_home_bin_facts(1))
next
  case False
  with assms have "x \<in> set (filter (survives lib old) (map TrimSpace (Split L (CHR '';''))))"
    by simp
  then show ?thesis by (rule survivors_no_delim)
qed

lemma updatePath_Join:
  "updatePath lib L old new =
     Join (java_home_bin # filter (survives lib old) (map TrimSpace (Split L (CHR '';'')))) (CHR '';'')"
  by (simp add: updatePath_def updatePath_loop_filter)

lemma updatePath_segments:
  "Split (updatePath lib L old new) (CHR '';'') =
     java_home_bin # filter (survives lib old) (map TrimSpace (Split L (CHR '';'')))"
  unfolding updatePath_Join
proof (rule Split_Join)
  show "java_home_bin # filter (survives lib old) (map TrimSpace (Split L (CHR '';''))) \<noteq> []"
    by simp
next
  fix x
  assume "x \<in> set (java_home_bin # filter (survives lib old) (map TrimSpace (Split L (CHR '';''))))"
  then show "CHR '';'' \<notin> set x" by (rule segments_no_delim)
qed

lemma updatePath_second:
  "updatePath lib (updatePath lib L old new) old' new' =
     Join (java_home_bin #
           filter (survives lib old') (filter (survives lib old) (map TrimSpace (Split L (CHR '';'')))))
          (CHR '';'')"
proof -
  let ?T = "filter (survives lib old) (map TrimSpace (Split L (CHR '';'')))"
  have "map TrimSpace ?T = ?T"
    by (rule map_idI) (use survivors_trimmed in blast)
  moreover have "\<not> survives lib old' java_home_bin"
    by (simp add: survives_def java_home_bin_facts)
  ultimately show ?thesis
    unfolding updatePath_Join [of lib "updatePath lib L old new"] updatePath_segments
    by (simp add: java_home_bin_facts(2))
qed

lemma updatePath_second_segments:
  "Split (updatePath lib (updatePath lib L old new) old' new') (CHR '';'') =
     java_home_bin #
     filter (survives lib old') (filter (survives lib old) (map TrimSpace (Split L (CHR '';''))))"
  unfolding updatePath_second
proof (rule Split_Join)
  show "java_home_bin #
     filter (survives lib old') (filter (survives lib old) (map TrimSpace (Split L (CHR '';'')))) \<noteq> []"
    by simp
next
  fix x
  assume "x \<in> set (java_home_bin #
     filter (survives lib old') (filter (survives lib old) (map TrimSpace (Split L (CHR '';'')))))"
  then have "x \<in> set (java_home_bin # filter (survives lib old) (map TrimSpace (Split L (CHR '';''))))"
    by auto
  then show "CHR '';'' \<notin> set x" by (rule segments_no_delim)
qed

lemma updatePath_twice_iff:
  "(updatePath lib (updatePath lib L Ho H) H H = updatePath lib L Ho H) \<longleftrightarrow>
   (\<forall>p \<in> set (tl (Split (updatePath lib L Ho H) (CHR '';''))). \<not> old_home_match lib H p)"
proof -
  let ?T = "filter (survives lib Ho) (map TrimSpace (Split L (CHR '';'')))"
  have seg1: "Split (updatePath lib L Ho H) (CHR '';'') = java_home_bin # ?T"
    by (rule updatePath_segments)
  have seg2: "Split (updatePath lib (updatePath lib L Ho H) H H) (CHR '';'') =
        java_home_bin # filter (survives lib H) ?T"
    by (rule updatePath_second_segments)
  have "(updatePath lib (updatePath lib L Ho H) H H = updatePath lib L Ho H) \<longleftrightarrow>
        (filter (survives lib H) ?T = ?T)"
  proof
    assume "updatePath lib (updatePath lib L Ho H) H H = updatePath lib L Ho H"
    with seg1 seg2 show "filter (survives lib H) ?T = ?T" by simp
  next
    assume same: "filter (survives lib H) ?T = ?T"
    have "updatePath lib (updatePath lib L Ho H) H H =
          Join (java_home_bin # filter (survives lib H) ?T) (CHR '';'')"
      by (rule updatePath_second)
    also have "\<dots> = Join (java_home_bin # ?T) (CHR '';'')"
      by (simp only: same)
    also have "\<dots> = updatePath lib L Ho H"
      by (rule updatePath_Join [symmetric])
    finally show "updatePath lib (updatePath lib L Ho H) H H = updatePath lib L Ho H" .
  qed
  also have "\<dots> \<longleftrightarrow> (\<forall>p \<in> set ?T. survives lib H p)"
    by (rule filter_id_conv)
  also have "\<dots> \<longleftrightarrow> (\<forall>p \<in> set ?T. \<not> old_home_match lib H p)"
    by (auto simp: survives_def)
  finally show ?thesis
    by (simp add: seg1)
qed

lemma one_java_home_ref:
  "filter (java_home_ref lib) (Split (updatePath lib L old new) (CHR '';'')) = [java_home_bin]"
  by (simp add: updatePath_segments java_home_bin_facts filter_empty_conv survives_def)

lemma one_java_home_ref_second:
  "filter (java_home_ref lib) (Split (updatePath lib (updatePath lib L old new) old' new') (CHR '';'')) =
     [java_home_bin]"
  by (simp add: updatePath_second_segments java_home_bin_facts filter_empty_conv survives_def)

subsection \<open>Shape of the result\<close>

text \<open>
  Claim C9. For every input PATH string, the list returned by the path rewrite has
  \<open>%JAVA_HOME%\bin\<close> as its first segment, contains no empty or all-whitespace segment,
  and every surviving segment appears whitespace-trimmed and in the same relative order
  as in the input: the segments after the first are the trimmed input segments, filtered
  without reordering. White space is what \<open>strings.TrimSpace\<close> removes, the Unicode white
  space; the statement holds for every value of the library record.
\<close>

theorem updatePath_result_shape:
  "hd (Split (updatePath lib L old new) (CHR '';'')) = java_home_bin \<and>
   tl (Split (updatePath lib L old new) (CHR '';'')) =
     filter (survives lib old) (map TrimSpace (Split L (CHR '';''))) \<and>
   (\<forall>p \<in> set (Split (updatePath lib L old new) (CHR '';'')).
      p \<noteq> [] \<and> \<not> blank p \<and> TrimSpace p = p)"
proof -
  let ?T = "filter (survives lib old) (map TrimSpace (Split L (CHR '';'')))"
  have seg: "Split (updatePath lib L old new) (CHR '';'') = java_home_bin # ?T"
    by (rule updatePath_segments)
  have h: "hd (java_home_bin # ?T) = java_home_bin" by simp
  have t: "tl (java_home_bin # ?T) = ?T" by simp
  have "p \<noteq> [] \<and> \<not> blank p \<and> TrimSpace p = p"
    if "p \<in> set (java_home_bin # ?T)" for p
  proof -
    have "TrimSpace p = p \<and> p \<noteq> []"
    proof (cases "p = java_home_bin")
      case True
      then show ?thesis by (simp add: java_home_bin_facts)
    next
      case False
      with that have "p \<in> set ?T" by simp
      then show ?thesis by (rule survivors_trimmed)
    qed
    then show ?thesis
      using TrimSpace_fixed_not_blank [of p] by simp
  qed
  then have all: "\<forall>p \<in> set (java_home_bin # ?T).
      p \<noteq> [] \<and> \<not> blank p \<and> TrimSpace p = p" ..
  show ?thesis
    unfolding seg by (intro conjI h t all)
qed

theorem updatePath_result_shape_witness:
  "hd (Split (updatePath sample_lib path_sample [] home_Y) (CHR '';'')) = java_home_bin \<and>
   map TrimSpace (Split path_sample (CHR '';'')) =
     [''C:'' @ [CHR 0x5C] @ ''Tools'', [], [], ''%java_home%'' @ [CHR 0x5C] @ ''bin'',
      ''D:'' @ [CHR 0x5C] @ ''Apps''] \<and>
   tl (Split (updatePath sample_lib path_sample [] home_Y) (CHR '';'')) =
     [''C:'' @ [CHR 0x5C] @ ''Tools'', ''D:'' @ [CHR 0x5C] @ ''Apps''] \<and>
   list_all (\<lambda>p. p \<noteq> [] \<and> \<not> blank p \<and> TrimSpace p = p)
     (Split (updatePath sample_lib path_sample [] home_Y) (CHR '';''))"
proof -
  have s: "map TrimSpace (Split path_sample (CHR '';'')) =
     [''C:'' @ [CHR 0x5C] @ ''Tools'', [], [], ''%java_home%'' @ [CHR 0x5C] @ ''bin'',
      ''D:'' @ [CHR 0x5C] @ ''Apps'']"
    by code_simp
  have t: "filter (survives sample_lib []) (map TrimSpace (Split path_sample (CHR '';''))) =
      [''C:'' @ [CHR 0x5C] @ ''Tools'', ''D:'' @ [CHR 0x5C] @ ''Apps'']"
    by code_simp
  from updatePath_result_shape [of sample_lib path_sample "[]" home_Y] s
  show ?thesis
    unfolding t list_all_iff by blast
qed

subsection \<open>Applying the rewrite twice\<close>

lemma updatePath_second_filter:
  "Split (updatePath lib (updatePath lib L Ho H) H H) (CHR '';'') =
     java_home_bin #
     filter (\<lambda>p. \<not> old_home_match lib H p) (tl (Split (updatePath lib L Ho H) (CHR '';'')))"
proof -
  let ?T = "filter (survives lib Ho) (map TrimSpace (Split L (CHR '';'')))"
  have s2: "Split (updatePath lib (updatePath lib L Ho H) H H) (CHR '';'') =
      java_home_bin # filter (survives lib H) ?T"
    by (rule updatePath_second_segments)
  have s1: "tl (Split (updatePath lib L Ho H) (CHR '';'')) = ?T"
    by (simp add: updatePath_segments)
  have "filter (survives lib H) ?T = filter (\<lambda>p. \<not> old_home_match lib H p) ?T"
    by (rule filter_cong) (auto simp: survives_def)
  then show ?thesis
    unfolding s2 s1 by (rule arg_cong)
qed

text \<open>
  Claim C1, as amended. For every search-path list \<open>L\<close> and homes \<open>H_old\<close>, \<open>H\<close>: the
  result of the rewrite, applied once or twice, holds exactly one segment that refers to
  \<open>%JAVA_HOME%\<close>, the prepended \<open>%JAVA_HOME%\bin\<close>. The second application, whose old home
  is \<open>H\<close>, keeps the first segment and removes from the rest exactly the segments that
  match \<open>H\<close> (equal to \<open>H\<close>'s bin folder under \<open>strings.EqualFold\<close>, or containing the
  lower-cased \<open>H\<close> in their lower-cased text, \<open>H\<close> non-empty); so it returns the same list
  as the first application if and only if no surviving segment matches \<open>H\<close>. The
  statement holds for every value of the library record, so for Go's Unicode case
  folding and its \<open>filepath.Join\<close>.
\<close>

theorem updatePath_twice:
  "filter (java_home_ref lib) (Split (updatePath lib L Ho H) (CHR '';'')) = [java_home_bin] \<and>
   filter (java_home_ref lib) (Split (updatePath lib (updatePath lib L Ho H) H H) (CHR '';'')) =
     [java_home_bin] \<and>
   Split (updatePath lib (updatePath lib L Ho H) H H) (CHR '';'') =
     java_home_bin #
     filter (\<lambda>p. \<not> old_home_match lib H p) (tl (Split (updatePath lib L Ho H) (CHR '';''))) \<and>
   ((updatePath lib (updatePath lib L Ho H) H H = updatePath lib L Ho H) \<longleftrightarrow>
    (\<forall>p \<in> set (tl (Split (updatePath lib L Ho H) (CHR '';''))). \<not> old_home_match lib H p))"
  by (intro conjI one_java_home_ref one_java_home_ref_second updatePath_second_filter
      updatePath_twice_iff)

theorem updatePath_twice_witness:
  "filter (java_home_ref sample_lib) (Split (updatePath sample_lib path_old home_X home_Y) (CHR '';'')) =
     [java_home_bin] \<and>
   list_all (\<lambda>p. \<not> old_home_match sample_lib home_Y p)
     (tl (Split (updatePath sample_lib path_old home_X home_Y) (CHR '';''))) \<and>
   updatePath sample_lib (updatePath sample_lib path_old home_X home_Y) home_Y home_Y =
     updatePath sample_lib path_old home_X home_Y \<and>
   updatePath sample_lib path_old home_X home_Y = java_home_bin @ '';OTHER''"
proof -
  have a: "list_all (\<lambda>p. \<not> old_home_match sample_lib home_Y p)
     (tl (Split (updatePath sample_lib path_old home_X home_Y) (CHR '';'')))"
    by code_simp
  have b: "updatePath sample_lib path_old home_X home_Y = java_home_bin @ '';OTHER''"
    by code_simp
  from updatePath_twice [of sample_lib path_old home_X home_Y] a b
  show ?thesis
    unfolding list_all_iff by blast
qed

text \<open>
  The claim as stated fails when PATH holds the literal bin folder of the new home and no
  JAVA_HOME was set before: the first rewrite keeps \<open>C:\Y\bin\<close>, the second drops it.
\<close>

theorem updatePath_twice_counterexample:
  "updatePath sample_lib path_literal [] home_Y =
     java_home_bin @ '';'' @ home_Y_bin @ '';OTHER'' \<and>
   updatePath sample_lib (updatePath sample_lib path_literal [] home_Y) home_Y home_Y =
     java_home_bin @ '';OTHER'' \<and>
   updatePath sample_lib (updatePath sample_lib path_literal [] home_Y) home_Y home_Y \<noteq>
     updatePath sample_lib path_literal [] home_Y"
  by code_simp

subsection \<open>Old-home segments\<close>

lemma lower_char_special:
  "c = CHR '';'' \<or> ascii_space c \<Longrightarrow> lower_char c = c"
proof -
  have "\<forall>c \<in> set [CHR 0x09, CHR 0x0A, CHR 0x0B, CHR 0x0C, CHR 0x0D, CHR 0x20, CHR '';''].
          lower_char c = c"
    by code_simp
  then show "c = CHR '';'' \<or> ascii_space c \<Longrightarrow> lower_char c = c"
    by (auto simp: ascii_space_def)
qed

lemma home_X_bin_casing:
  assumes join: "filepath_Join lib [home_X, ''bin''] = home_X_bin"
    and ascii: "is_ascii s"
    and fold: "EqualFold lib s home_X_bin"
  shows "updatePath lib (s @ '';OTHER'') home_X home_Y = java_home_bin @ '';OTHER''"
proof -
  have ax: "is_ascii home_X_bin" "is_ascii home_X" "is_ascii ''OTHER''" "is_ascii java_home_bin"
    by code_simp+
  have low: "map lower_char s = map lower_char home_X_bin"
    using fold by (simp add: EqualFold_ascii [OF ascii ax(1)])
  have clean: "\<forall>c \<in> set (map lower_char home_X_bin). \<not> (c = CHR '';'' \<or> ascii_space c)"
    by code_simp
  have nos: "c \<notin> set s" if "c = CHR '';'' \<or> ascii_space c" for c
  proof
    assume "c \<in> set s"
    then have "lower_char c \<in> set (map lower_char s)" by simp
    then have "c \<in> set (map lower_char home_X_bin)"
      by (simp only: low lower_char_special [OF that])
    with clean that show False by blast
  qed
  have trim: "TrimSpace s = s"
  proof (rule TrimSpace_plain, rule ballI)
    fix c assume c: "c \<in> set s"
    with ascii have "ascii_byte c" by (simp add: is_ascii_def list_all_iff)
    moreover from c nos have "\<not> ascii_space c" by blast
    ultimately show "ascii_byte c \<and> \<not> ascii_space c" ..
  qed
  have "CHR '';'' \<notin> set s" using nos by blast
  then have "Split (s @ CHR '';'' # ''OTHER'') (CHR '';'') = s # Split ''OTHER'' (CHR '';'')"
    by (rule Split_append)
  then have sp: "Split (s @ '';OTHER'') (CHR '';'') = [s, ''OTHER'']"
    by simp
  have "home_X \<noteq> []" by code_simp
  with fold join have drop: "\<not> survives lib home_X s"
    by (simp add: survives_def old_home_match_def)
  have "map lower_char ''OTHER'' \<noteq> map lower_char home_X_bin"
    and "map lower_char ''OTHER'' \<noteq> map lower_char java_home_bin"
    and "\<not> Contains (map lower_char ''OTHER'') (map lower_char home_X)"
    and "\<not> Contains (map upper_char ''OTHER'') ''%JAVA_HOME%''"
    by code_simp+
  then have keep: "survives lib home_X ''OTHER''"
    by (simp add: survives_def old_home_match_def java_home_ref_def join ToLower_def ToUpper_def
        EqualFold_ascii ax del: EqualFold.simps)
  have t2: "TrimSpace ''OTHER'' = ''OTHER''" by code_simp
  show ?thesis
    unfolding updatePath_Join sp
    by (simp add: trim t2 drop keep)
qed

text \<open>
  Claim C7, as amended. Segments are compared after trimming. When \<open>oldJavaHome\<close> is not
  empty, no surviving segment is equal under \<open>strings.EqualFold\<close> to
  \<open>filepath.Join(oldJavaHome, "bin")\<close> and none contains the lower-cased \<open>oldJavaHome\<close> in
  its lower-cased text; whatever \<open>oldJavaHome\<close> is, none contains \<open>%JAVA_HOME%\<close> in its
  upper-cased text; the survivors are exactly the other non-empty trimmed segments, for
  every value of the library record. For the list \<open>[s, OTHER]\<close> with \<open>s\<close> any casing of
  \<open>C:\X\bin\<close> (the casings of its letters are ASCII), old home \<open>C:\X\<close>, whose bin folder
  is \<open>C:\X\bin\<close>, and new home \<open>C:\Y\<close> the result is \<open>[%JAVA_HOME%\bin, OTHER]\<close>.
\<close>

theorem updatePath_removes_old_home:
  "(\<forall>p \<in> set (tl (Split (updatePath lib L old new) (CHR '';''))).
      \<not> (old \<noteq> [] \<and> EqualFold lib p (filepath_Join lib [old, ''bin''])) \<and>
      \<not> (old \<noteq> [] \<and> Contains (ToLower lib p) (ToLower lib old)) \<and>
      \<not> Contains (ToUpper lib p) ''%JAVA_HOME%'') \<and>
   tl (Split (updatePath lib L old new) (CHR '';'')) =
     filter (survives lib old) (map TrimSpace (Split L (CHR '';''))) \<and>
   (filepath_Join lib [home_X, ''bin''] = home_X_bin \<and> is_ascii s \<and> EqualFold lib s home_X_bin \<longrightarrow>
      updatePath lib (s @ '';OTHER'') home_X home_Y = java_home_bin @ '';OTHER'')"
proof (intro conjI impI ballI)
  fix p
  assume "p \<in> set (tl (Split (updatePath lib L old new) (CHR '';'')))"
  then have "survives lib old p"
    by (simp add: updatePath_segments)
  then show "\<not> (old \<noteq> [] \<and> EqualFold lib p (filepath_Join lib [old, ''bin'']))"
    and "\<not> (old \<noteq> [] \<and> Contains (ToLower lib p) (ToLower lib old))"
    and "\<not> Contains (ToUpper lib p) ''%JAVA_HOME%''"
    by (auto simp: survives_def old_home_match_def java_home_ref_def)
next
  show "tl (Split (updatePath lib L old new) (CHR '';'')) =
     filter (survives lib old) (map TrimSpace (Split L (CHR '';'')))"
    by (simp add: updatePath_segments)
next
  assume "filepath_Join lib [home_X, ''bin''] = home_X_bin \<and> is_ascii s \<and> EqualFold lib s home_X_bin"
  then show "updatePath lib (s @ '';OTHER'') home_X home_Y = java_home_bin @ '';OTHER''"
    by (simp add: home_X_bin_casing)
qed

theorem updatePath_removes_old_home_witness:
  "tl (Split (updatePath sample_lib path_old home_X home_Y) (CHR '';'')) = [''OTHER''] \<and>
   filepath_Join sample_lib [home_X, ''bin''] = home_X_bin \<and>
   is_ascii x_bin_variant \<and> EqualFold sample_lib x_bin_variant home_X_bin \<and>
   updatePath sample_lib (x_bin_variant @ '';OTHER'') home_X home_Y = java_home_bin @ '';OTHER''"
proof -
  have a: "filter (survives sample_lib home_X) (map TrimSpace (Split path_old (CHR '';''))) = [''OTHER'']"
    by code_simp
  have b: "filepath_Join sample_lib [home_X, ''bin''] = home_X_bin"
    "is_ascii x_bin_variant" "EqualFold sample_lib x_bin_variant home_X_bin"
    by code_simp+
  from updatePath_removes_old_home [of sample_lib path_old home_X home_Y x_bin_variant] a b
  show ?thesis
    by simp
qed

text \<open>
  With an empty \<open>oldJavaHome\<close> the two old-home tests are skipped: the segment \<open>OTHER\<close>
  contains the empty string, as every string does, and survives.
\<close>

theorem updatePath_empty_old_home_counterexample:
  "Contains (ToLower sample_lib ''OTHER'') (ToLower sample_lib []) \<and>
   TrimSpace ''OTHER'' = ''OTHER'' \<and>
   updatePath sample_lib ''OTHER'' [] home_Y = java_home_bin @ '';OTHER''"
  by code_simp

section \<open>Inventory records\<close>

text \<open>
  Claim C2 says that an installed-package record is written only for versions whose
  installation succeeded, that each record pairs the install path with the version
  installed at that path, and that a failed version leaves no record. The code departs
  from it: \<open>RunMultiInstall\<close> hands \<open>finalizeInstallation\<close> the paths of the successes
  together with the whole selection, and the two are paired by index. When 17 and 21 are
  selected, 17 fails and 21 succeeds, the record that is saved pairs the path of JDK 21
  with version 17. \<open>RunSingleInstall\<close> on 21 records it under 21. When 21 and 17 are
  selected in the order of the menu, 21 fails and 17 succeeds, the record that is saved
  pairs the path of JDK 17 with version 21.
\<close>

theorem RunMultiInstall_misattributes:
  "InstallVersion env_17_fails ''17'' ''user'' = Inl (Failure ''installation failed: download failed'') \<and>
   InstallVersion env_17_fails ''21'' ''user'' = Inr jdk21_path \<and>
   map (\<lambda>j. (Version j, Path j)) (InstalledJDKs (config (fst (RunMultiInstall env_17_fails empty_state)))) =
     [(''17'', jdk21_path)] \<and>
   map_option (\<lambda>c. map (\<lambda>j. (Version j, Path j)) (InstalledJDKs c)) (saved (fst (RunMultiInstall env_17_fails empty_state))) =
     Some [(''17'', jdk21_path)] \<and>
   snd (RunMultiInstall env_17_fails empty_state) = Inr () \<and>
   map (\<lambda>j. (Version j, Path j)) (InstalledJDKs (config (fst (RunSingleInstall env_17_fails empty_state)))) =
     [(''21'', jdk21_path)] \<and>
   InstallVersion env_21_fails ''21'' ''user'' = Inl (Failure ''installation failed: download failed'') \<and>
   InstallVersion env_21_fails ''17'' ''user'' = Inr jdk17_path \<and>
   map (\<lambda>j. (Version j, Path j)) (InstalledJDKs (config (fst (RunMultiInstall env_21_fails empty_state)))) =
     [(''21'', jdk17_path)] \<and>
   map_option (\<lambda>c. map (\<lambda>j. (Version j, Path j)) (InstalledJDKs c)) (saved (fst (RunMultiInstall env_21_fails empty_state))) =
     Some [(''21'', jdk17_path)] \<and>
   snd (RunMultiInstall env_21_fails empty_state) = Inr ()"
  by code_simp
section \<open>The download\<close>

text \<open>
  Claim C5, as amended. For every download that gets a response with status 200 into a
  file it could create: when the number of bytes written differs from the response's
  content length, \<open>DownloadFile\<close> returns an error. When copying the body failed, the
  error is \<open>failed to write file\<close> around the error of the transfer, whatever the two
  numbers are; when copying reported no error and the numbers differ, it is the
  incomplete-download error with both numbers; when copying reported no error and the
  numbers agree, there is none. With the bodies that \<open>net/http\<close> delivers
  (\<open>net_http_body\<close>), a response with a declared length that delivers another number of
  bytes ends in \<open>failed to write file\<close>, not in the incomplete-download error, and the
  incomplete-download error is returned exactly when copying reported no error and the
  response declared no length (content length \<open>-1\<close>). In every case the file holds the
  bytes written.
\<close>

theorem DownloadFile_incomplete:
  "create_err e destPath = None \<and> http_get e url = Inr resp \<and> StatusCode resp = 200 \<longrightarrow>
     (int (length (Body resp)) \<noteq> ContentLength resp \<longrightarrow>
        snd (DownloadFile e url destPath w) \<noteq> None) \<and>
     (\<forall>err. BodyErr resp = Some err \<longrightarrow>
        snd (DownloadFile e url destPath w) = Some (Wrap ''failed to write file'' err)) \<and>
     (BodyErr resp = None \<and> int (length (Body resp)) \<noteq> ContentLength resp \<longrightarrow>
        snd (DownloadFile e url destPath w) =
          Some (IncompleteDownload (int (length (Body resp))) (ContentLength resp))) \<and>
     (BodyErr resp = None \<and> int (length (Body resp)) = ContentLength resp \<longrightarrow>
        snd (DownloadFile e url destPath w) = None) \<and>
     (net_http_body resp \<and> 0 \<le> ContentLength resp \<and>
      int (length (Body resp)) \<noteq> ContentLength resp \<longrightarrow>
        (\<exists>err. BodyErr resp = Some err \<and>
           snd (DownloadFile e url destPath w) = Some (Wrap ''failed to write file'' err))) \<and>
     (net_http_body resp \<longrightarrow>
        ((\<exists>got expected. snd (DownloadFile e url destPath w) =
            Some (IncompleteDownload got expected)) \<longleftrightarrow>
         (BodyErr resp = None \<and> ContentLength resp = - 1))) \<and>
     files (fst (DownloadFile e url destPath w)) destPath = Some (File (Body resp))"
proof (intro impI)
  assume h: "create_err e destPath = None \<and> http_get e url = Inr resp \<and> StatusCode resp = 200"
  have run: "snd (DownloadFile e url destPath w) =
      (case BodyErr resp of
         Some err \<Rightarrow> Some (Wrap ''failed to write file'' err)
       | None \<Rightarrow>
           if int (length (Body resp)) \<noteq> ContentLength resp
           then Some (IncompleteDownload (int (length (Body resp))) (ContentLength resp))
           else None)"
    using h by (simp add: DownloadFile_def os_Create_def logged_def Let_def split: option.splits)
  have held: "files (fst (DownloadFile e url destPath w)) destPath = Some (File (Body resp))"
    using h by (simp add: DownloadFile_def os_Create_def logged_def Let_def split: option.splits)
  have a: "int (length (Body resp)) \<noteq> ContentLength resp \<longrightarrow>
        snd (DownloadFile e url destPath w) \<noteq> None"
    unfolding run by (simp split: option.splits)
  have b: "\<forall>err. BodyErr resp = Some err \<longrightarrow>
        snd (DownloadFile e url destPath w) = Some (Wrap ''failed to write file'' err)"
    unfolding run by simp
  have c: "BodyErr resp = None \<and> int (length (Body resp)) \<noteq> ContentLength resp \<longrightarrow>
        snd (DownloadFile e url destPath w) =
          Some (IncompleteDownload (int (length (Body resp))) (ContentLength resp))"
    unfolding run by simp
  have d: "BodyErr resp = None \<and> int (length (Body resp)) = ContentLength resp \<longrightarrow>
        snd (DownloadFile e url destPath w) = None"
    unfolding run by simp
  have f: "net_http_body resp \<and> 0 \<le> ContentLength resp \<and>
      int (length (Body resp)) \<noteq> ContentLength resp \<longrightarrow>
        (\<exists>err. BodyErr resp = Some err \<and>
           snd (DownloadFile e url destPath w) = Some (Wrap ''failed to write file'' err))"
    unfolding run net_http_body_def by (cases "BodyErr resp") auto
  have g: "net_http_body resp \<longrightarrow>
        ((\<exists>got expected. snd (DownloadFile e url destPath w) =
            Some (IncompleteDownload got expected)) \<longleftrightarrow>
         (BodyErr resp = None \<and> ContentLength resp = - 1))"
    unfolding run net_http_body_def by (cases "BodyErr resp") auto
  show "(int (length (Body resp)) \<noteq> ContentLength resp \<longrightarrow>
        snd (DownloadFile e url destPath w) \<noteq> None) \<and>
     (\<forall>err. BodyErr resp = Some err \<longrightarrow>
        snd (DownloadFile e url destPath w) = Some (Wrap ''failed to write file'' err)) \<and>
     (BodyErr resp = None \<and> int (length (Body resp)) \<noteq> ContentLength resp \<longrightarrow>
        snd (DownloadFile e url destPath w) =
          Some (IncompleteDownload (int (length (Body resp))) (ContentLength resp))) \<and>
     (BodyErr resp = None \<and> int (length (Body resp)) = ContentLength resp \<longrightarrow>
        snd (DownloadFile e url destPath w) = None) \<and>
     (net_http_body resp \<and> 0 \<le> ContentLength resp \<and>
      int (length (Body resp)) \<noteq> ContentLength resp \<longrightarrow>
        (\<exists>err. BodyErr resp = Some err \<and>
           snd (DownloadFile e url destPath w) = Some (Wrap ''failed to write file'' err))) \<and>
     (net_http_body resp \<longrightarrow>
        ((\<exists>got expected. snd (DownloadFile e url destPath w) =
            Some (IncompleteDownload got expected)) \<longleftrightarrow>
         (BodyErr resp = None \<and> ContentLength resp = - 1))) \<and>
     files (fst (DownloadFile e url destPath w)) destPath = Some (File (Body resp))"
    by (intro conjI a b c d f g held)
qed

theorem DownloadFile_incomplete_witness:
  "net_http_body unsized_response \<and>
   BodyErr unsized_response = None \<and> ContentLength unsized_response = - 1 \<and>
   snd (DownloadFile unsized_env ''https://example.org/jdk21.zip'' dest_sample empty_world) =
     Some (IncompleteDownload 3 (- 1)) \<and>
   files (fst (DownloadFile unsized_env ''https://example.org/jdk21.zip'' dest_sample empty_world)) dest_sample =
     Some (File ''zip'')"
proof -
  have h: "create_err unsized_env dest_sample = None \<and>
      http_get unsized_env ''https://example.org/jdk21.zip'' = Inr unsized_response \<and>
      StatusCode unsized_response = 200"
    by (simp add: unsized_env_def sample_env_def unsized_response_def)
  have n: "net_http_body unsized_response"
    by (simp add: net_http_body_def unsized_response_def)
  have v: "BodyErr unsized_response = None" "ContentLength unsized_response = - 1"
    "int (length (Body unsized_response)) = 3" "Body unsized_response = ''zip''"
    by (simp_all add: unsized_response_def)
  from DownloadFile_incomplete [of unsized_env dest_sample "''https://example.org/jdk21.zip''"
      unsized_response empty_world] h n v
  show ?thesis by simp
qed

text \<open>
  The claim as stated fails for a response that declares its length and breaks off: three
  bytes are declared, two arrive and are written, the transfer reports \<open>unexpected EOF\<close>,
  and \<open>DownloadFile\<close> returns \<open>failed to write file\<close>, not the incomplete-download error.
\<close>

theorem DownloadFile_truncated_counterexample:
  "net_http_body truncated_response \<and>
   int (length (Body truncated_response)) = 2 \<and> ContentLength truncated_response = 3 \<and>
   snd (DownloadFile truncated_env ''https://example.org/jdk21.zip'' dest_sample empty_world) =
     Some (Wrap ''failed to write file'' (Failure ''unexpected EOF'')) \<and>
   files (fst (DownloadFile truncated_env ''https://example.org/jdk21.zip'' dest_sample empty_world)) dest_sample =
     Some (File ''zi'')"
  by (simp add: DownloadFile_def os_Create_def logged_def Let_def truncated_env_def sample_env_def
      truncated_response_def net_http_body_def empty_world_def)

text \<open>
  Claim C6, as amended. \<open>DownloadFile\<close> creates the destination file, or truncates the one
  that is there (\<open>os.Create\<close>, not an exclusive creation), before it issues the network
  request. When the request then fails to start, \<open>DownloadFile\<close> returns that error and
  leaves the destination file in place, empty.
\<close>

theorem DownloadFile_request_fails:
  assumes "create_err e destPath = None"
    and "http_get e url = Inl err"
  shows "DownloadFile e url destPath w =
           (w\<lparr>files := (files w)(destPath \<mapsto> File []),
              trace := trace w @ [EvCreate destPath, EvHttpGet url]\<rparr>,
            Some (Wrap ''failed to download'' err))"
  using assms
  by (simp add: DownloadFile_def os_Create_def logged_def Let_def)

theorem DownloadFile_request_fails_witness:
  "DownloadFile offline_env ''https://example.org/jdk21.zip'' dest_sample empty_world =
     (empty_world\<lparr>files := (files empty_world)(dest_sample \<mapsto> File []),
        trace := trace empty_world @ [EvCreate dest_sample, EvHttpGet ''https://example.org/jdk21.zip'']\<rparr>,
      Some (Wrap ''failed to download'' (Failure ''dial tcp: no such host'')))"
proof -
  have a: "create_err offline_env dest_sample = None"
    and b: "http_get offline_env ''https://example.org/jdk21.zip'' = Inl (Failure ''dial tcp: no such host'')"
    by (simp_all add: offline_env_def sample_env_def)
  from DownloadFile_request_fails [OF a b] show ?thesis .
qed

text \<open>
  The claim as stated fails: after a request that could not start, a destination that did
  not exist is there, empty, and one that held data has lost it.
\<close>

theorem DownloadFile_leaves_file_counterexample:
  "snd (DownloadFile offline_env ''https://example.org/jdk21.zip'' dest_sample empty_world) =
     Some (Wrap ''failed to download'' (Failure ''dial tcp: no such host'')) \<and>
   files empty_world dest_sample = None \<and>
   files (fst (DownloadFile offline_env ''https://example.org/jdk21.zip'' dest_sample empty_world)) dest_sample =
     Some (File []) \<and>
   files world_with_dest dest_sample = Some (File ''earlier content'') \<and>
   files (fst (DownloadFile offline_env ''https://example.org/jdk21.zip'' dest_sample world_with_dest)) dest_sample =
     Some (File [])"
  by (simp add: DownloadFile_def os_Create_def logged_def Let_def offline_env_def sample_env_def
      empty_world_def world_with_dest_def)

section \<open>The checksum gate\<close>








section \<open>The staging directory\<close>











section \<open>Rollback of a failed self-update\<close>

lemma HasPrefix_append: "HasPrefix (s @ t) s"
  by (induction s) auto

lemma Contains_prefix: "HasPrefix t s \<Longrightarrow> Contains t s"
  by (cases t) (auto elim: HasPrefix.elims)

lemma Contains_append_left: "Contains t s \<Longrightarrow> Contains (a @ t) s"
  by (induction a) auto

lemma Contains_head: "Contains (s @ t) s"
  by (intro Contains_prefix HasPrefix_append)

lemma Contains_self: "Contains s s"
  using Contains_head [of s "[]"] by simp

lemma RollbackFailed_text:
  "Contains (Error (RollbackFailed err rollbackErr)) (Error err)"
  "Contains (Error (RollbackFailed err rollbackErr)) (Error rollbackErr)"
  "Contains (Error (RollbackFailed err (LinkError opn old new cause))) old"
  by (simp_all only: Error.simps)
     (intro Contains_head Contains_self Contains_append_left)+

text \<open>
  Claim C3. If the replacement step fails after a successful backup, \<open>PerformUpdate\<close>
  attempts to restore the backup over the executable path (the \<open>os.Rename\<close> that ends the
  trace). When the restoration succeeds, the returned error says that the update failed
  and was rolled back, and the executable holds its original bytes again. When the
  restoration also fails, the returned error holds both the update error and the rollback
  error; its text contains the text of both and the path of the backup, which the error
  of \<open>os.Rename\<close> names, and the backup is still there.
\<close>

theorem PerformUpdate_rollback:
  assumes "executable u = Inr exe"
    and "readfile_err u exe = None"
    and "files w exe = Some (File original)"
    and "writefile_err u (exe @ ''.backup'') = None"
    and "update_to u (AssetURL rel) (AssetName rel) exe = (Some updateErr, left)"
  shows "trace (fst (PerformUpdate u rel w)) =
           trace w @ [EvReadFile exe, EvWriteFile (exe @ ''.backup''), EvUpdateTo exe,
                      EvRename (exe @ ''.backup'') exe] \<and>
         (rename_err (sys u) (exe @ ''.backup'') exe = None \<longrightarrow>
            snd (PerformUpdate u rel w) = Some (Wrap ''update failed (rolled back)'' updateErr) \<and>
            files (fst (PerformUpdate u rel w)) exe = Some (File original)) \<and>
         (\<forall>cause. rename_err (sys u) (exe @ ''.backup'') exe = Some cause \<longrightarrow>
            snd (PerformUpdate u rel w) =
              Some (RollbackFailed updateErr (LinkError ''rename'' (exe @ ''.backup'') exe cause)) \<and>
            Contains (Error (RollbackFailed updateErr (LinkError ''rename'' (exe @ ''.backup'') exe cause)))
              (Error updateErr) \<and>
            Contains (Error (RollbackFailed updateErr (LinkError ''rename'' (exe @ ''.backup'') exe cause)))
              (Error (LinkError ''rename'' (exe @ ''.backup'') exe cause)) \<and>
            Contains (Error (RollbackFailed updateErr (LinkError ''rename'' (exe @ ''.backup'') exe cause)))
              (exe @ ''.backup'') \<and>
            files (fst (PerformUpdate u rel w)) (exe @ ''.backup'') = Some (File original))"
proof -
  have ne: "exe @ ''.backup'' \<noteq> exe" by simp
  have tr: "trace (fst (PerformUpdate u rel w)) =
           trace w @ [EvReadFile exe, EvWriteFile (exe @ ''.backup''), EvUpdateTo exe,
                      EvRename (exe @ ''.backup'') exe]"
    using assms
    by (simp add: PerformUpdate_def copyFile_def selfupdate_UpdateTo_def os_Rename_def
        logged_def Let_def split: option.splits)
  have restored: "snd (PerformUpdate u rel w) = Some (Wrap ''update failed (rolled back)'' updateErr) \<and>
            files (fst (PerformUpdate u rel w)) exe = Some (File original)"
    if "rename_err (sys u) (exe @ ''.backup'') exe = None"
    using assms that
    by (simp add: PerformUpdate_def copyFile_def selfupdate_UpdateTo_def os_Rename_def
        logged_def Let_def)
  have stuck: "snd (PerformUpdate u rel w) =
              Some (RollbackFailed updateErr (LinkError ''rename'' (exe @ ''.backup'') exe cause)) \<and>
            files (fst (PerformUpdate u rel w)) (exe @ ''.backup'') = Some (File original)"
    if "rename_err (sys u) (exe @ ''.backup'') exe = Some cause" for cause
    using assms that
    by (simp add: PerformUpdate_def copyFile_def selfupdate_UpdateTo_def os_Rename_def
        logged_def Let_def)
  show ?thesis
    using tr restored stuck RollbackFailed_text by blast
qed

theorem PerformUpdate_rollback_witness:
  "snd (PerformUpdate broken_update sample_release world_with_exe) =
     Some (Wrap ''update failed (rolled back)'' (Failure ''checksum validation failed'')) \<and>
   files (fst (PerformUpdate broken_update sample_release world_with_exe)) exe_sample =
     Some (File ''version 1'') \<and>
   snd (PerformUpdate broken_update_locked sample_release world_with_exe) =
     Some (RollbackFailed (Failure ''checksum validation failed'')
            (LinkError ''rename'' (exe_sample @ ''.backup'') exe_sample (Failure ''Access is denied.''))) \<and>
   Contains (Error (RollbackFailed (Failure ''checksum validation failed'')
            (LinkError ''rename'' (exe_sample @ ''.backup'') exe_sample (Failure ''Access is denied.''))))
     (exe_sample @ ''.backup'') \<and>
   files (fst (PerformUpdate broken_update_locked sample_release world_with_exe)) (exe_sample @ ''.backup'') =
     Some (File ''version 1'')"
proof -
  have a: "executable broken_update = Inr exe_sample"
    and b: "readfile_err broken_update exe_sample = None"
    and c: "files world_with_exe exe_sample = Some (File ''version 1'')"
    and d: "writefile_err broken_update (exe_sample @ ''.backup'') = None"
    and e: "update_to broken_update (AssetURL sample_release) (AssetName sample_release) exe_sample =
        (Some (Failure ''checksum validation failed''), Some (File ''partial''))"
    and f: "rename_err (sys broken_update) (exe_sample @ ''.backup'') exe_sample = None"
    by (simp_all add: broken_update_def world_with_exe_def sample_env_def)
  have a': "executable broken_update_locked = Inr exe_sample"
    and b': "readfile_err broken_update_locked exe_sample = None"
    and d': "writefile_err broken_update_locked (exe_sample @ ''.backup'') = None"
    and e': "update_to broken_update_locked (AssetURL sample_release) (AssetName sample_release) exe_sample =
        (Some (Failure ''checksum validation failed''), Some (File ''partial''))"
    and f': "rename_err (sys broken_update_locked) (exe_sample @ ''.backup'') exe_sample =
        Some (Failure ''Access is denied.'')"
    by (simp_all add: broken_update_locked_def broken_update_def sample_env_def)
  from PerformUpdate_rollback [OF a b c d e] f
       PerformUpdate_rollback [OF a' b' c d' e'] f'
  show ?thesis by blast
qed

section \<open>Discovery falls back, the update check does not\<close>








end
